theory Spec2Isabelle
  imports Main "HOL-Library.Sublist"
begin

section \<open>Python values\<close>

text \<open>
  The exceptions the modelled functions can raise. A function that may raise returns
  \<open>py_exn + 'a\<close>, with \<open>Inl\<close> carrying the exception.
\<close>

datatype py_exn = AttributeError | TypeError | ValueError | IndexError | KeyError
  | OverflowError

text \<open>
  A decoded JSON document, as \<open>response.json()\<close> hands it to the parsers. The type
  \<open>'f\<close> stands for Python's \<open>float\<close>; nothing is assumed about it. An object is an
  association list in the order of the document, looked up by key.
\<close>

datatype 'f json = JNull | JBool bool | JInt int | JFloat 'f | JStr string
  | JList "'f json list" | JObj "(string \<times> 'f json) list"

text \<open>\<open>d.get(key, default)\<close>: only a dict has the method.\<close>

fun py_get :: "'f json \<Rightarrow> string \<Rightarrow> 'f json \<Rightarrow> py_exn + 'f json" where
  "py_get (JObj kvs) k dflt = Inr (case map_of kvs k of Some v \<Rightarrow> v | None \<Rightarrow> dflt)"
| "py_get _ k dflt = Inl AttributeError"

text \<open>A chain \<open>d.get(k1, d1).get(k2, d2)...\<close>, stopping at the first exception.\<close>

fun get_path :: "'f json \<Rightarrow> (string \<times> 'f json) list \<Rightarrow> py_exn + 'f json" where
  "get_path d [] = Inr d"
| "get_path d ((k, dflt) # rest) =
     (case py_get d k dflt of Inl e \<Rightarrow> Inl e | Inr v \<Rightarrow> get_path v rest)"

section \<open>Python strings\<close>

text \<open>
  A \<open>str\<close> is modelled as a \<open>string\<close>; a character is a code point below 256.
\<close>

definition digit_char :: "nat \<Rightarrow> char" where
  "digit_char d = ''0123456789'' ! d"

function str_nat :: "nat \<Rightarrow> string" where
  "str_nat n = (if n < 10 then [digit_char n] else str_nat (n div 10) @ [digit_char (n mod 10)])"
  by pat_completeness auto
termination
  by (relation "measure id") auto

text \<open>\<open>str(i)\<close> of an integer.\<close>

definition str_int :: "int \<Rightarrow> string" where
  "str_int i = (if i < 0 then CHR ''-'' # str_nat (nat (- i)) else str_nat (nat i))"

text \<open>\<open>needle in haystack\<close> on strings.\<close>

fun str_contains :: "string \<Rightarrow> string \<Rightarrow> bool" where
  "str_contains needle [] = (needle = [])"
| "str_contains needle (c # cs) = (prefix needle (c # cs) \<or> str_contains needle cs)"

text \<open>
  \<open>s.replace(old, new)\<close>: the occurrences of \<open>old\<close> are found from the left, without
  overlap, and each is replaced. With an empty \<open>old\<close> Python puts \<open>new\<close> before every
  character and at the end.
\<close>

fun replace_from :: "char \<Rightarrow> string \<Rightarrow> string \<Rightarrow> string \<Rightarrow> string" where
  "replace_from o1 os new [] = []"
| "replace_from o1 os new (c # cs) =
     (if prefix (o1 # os) (c # cs) then new @ replace_from o1 os new (drop (length os) cs)
      else c # replace_from o1 os new cs)"

fun str_replace :: "string \<Rightarrow> string \<Rightarrow> string \<Rightarrow> string" where
  "str_replace [] new s = new @ concat (map (\<lambda>c. c # new) s)"
| "str_replace (o1 # os) new s = replace_from o1 os new s"

section \<open>Python built-ins used by the parsers\<close>

text \<open>Sequencing of computations that may raise: the first exception wins.\<close>

definition exn_bind :: "py_exn + 'a \<Rightarrow> ('a \<Rightarrow> py_exn + 'b) \<Rightarrow> py_exn + 'b" where
  "exn_bind m f = (case m of Inl e \<Rightarrow> Inl e | Inr v \<Rightarrow> f v)"

fun map_exn :: "('a \<Rightarrow> py_exn + 'b) \<Rightarrow> 'a list \<Rightarrow> py_exn + 'b list" where
  "map_exn f [] = Inr []"
| "map_exn f (x # xs) =
     (case f x of Inl e \<Rightarrow> Inl e
      | Inr y \<Rightarrow> (case map_exn f xs of Inl e \<Rightarrow> Inl e | Inr ys \<Rightarrow> Inr (y # ys)))"

text \<open>
  A dict display \<open>{k1: e1, k2: e2, ...}\<close>: the values are evaluated in the order
  written, and the first one that raises ends the evaluation.
\<close>

fun mk_dict_items :: "(string \<times> (py_exn + 'f json)) list \<Rightarrow> py_exn + (string \<times> 'f json) list" where
  "mk_dict_items [] = Inr []"
| "mk_dict_items ((k, m) # rest) =
     (case m of Inl e \<Rightarrow> Inl e
      | Inr v \<Rightarrow> (case mk_dict_items rest of Inl e \<Rightarrow> Inl e | Inr kvs \<Rightarrow> Inr ((k, v) # kvs)))"

definition mk_dict :: "(string \<times> (py_exn + 'f json)) list \<Rightarrow> py_exn + 'f json" where
  "mk_dict items = (case mk_dict_items items of Inl e \<Rightarrow> Inl e | Inr kvs \<Rightarrow> Inr (JObj kvs))"

text \<open>\<open>for x in v\<close>: a list gives its elements, a dict its keys, a string its characters.\<close>

fun py_iter :: "'f json \<Rightarrow> py_exn + 'f json list" where
  "py_iter (JList xs) = Inr xs"
| "py_iter (JObj kvs) = Inr (map (\<lambda>kv. JStr (fst kv)) kvs)"
| "py_iter (JStr s) = Inr (map (\<lambda>c. JStr [c]) s)"
| "py_iter _ = Inl TypeError"

text \<open>
  \<open>v[0]\<close>: the first element of a list or string, \<open>IndexError\<close> when it is empty; a
  decoded JSON object has only string keys, so \<open>d[0]\<close> is a \<open>KeyError\<close>.
\<close>

fun py_index0 :: "'f json \<Rightarrow> py_exn + 'f json" where
  "py_index0 (JList []) = Inl IndexError"
| "py_index0 (JList (x # xs)) = Inr x"
| "py_index0 (JStr []) = Inl IndexError"
| "py_index0 (JStr (c # cs)) = Inr (JStr [c])"
| "py_index0 (JObj kvs) = Inl KeyError"
| "py_index0 _ = Inl TypeError"

text \<open>
  \<open>str(v)\<close>. The text of a float, a list or a dict is left to the parameter \<open>repr\<close>.
\<close>

fun py_str :: "('f json \<Rightarrow> string) \<Rightarrow> 'f json \<Rightarrow> string" where
  "py_str repr (JStr s) = s"
| "py_str repr JNull = ''None''"
| "py_str repr (JBool b) = (if b then ''True'' else ''False'')"
| "py_str repr (JInt i) = str_int i"
| "py_str repr v = repr v"








text \<open>
  The interpreter, as far as the parsers need it: \<open>float\<close> on a string (\<open>None\<close> is its
  \<open>ValueError\<close>), \<open>float\<close> on an integer (\<open>None\<close> is its \<open>OverflowError\<close>), the limit on
  integer strings, and \<open>repr\<close>.
\<close>

record 'f interp =
  float_of_str :: "string \<Rightarrow> 'f option"
  float_of_int :: "int \<Rightarrow> 'f option"
  max_str_digits :: nat
  repr :: "'f json \<Rightarrow> string"


section \<open>Numeric coercion (parser/doctor.py, parser/establishment.py)\<close>


section \<open>Name split (parser/doctor.py, parser/establishment.py)\<close>

text \<open>\<open>s.split(sep)\<close> for a separator of one character, and \<open>" ".join(parts)\<close>.\<close>

fun split_on :: "char \<Rightarrow> string \<Rightarrow> string list" where
  "split_on sep [] = [[]]"
| "split_on sep (c # cs) =
     (if c = sep then [] # split_on sep cs
      else (let r = split_on sep cs in (c # hd r) # tl r))"

fun join_sp :: "string list \<Rightarrow> string" where
  "join_sp [] = []"
| "join_sp [x] = x"
| "join_sp (x # y # ys) = x @ CHR '' '' # join_sp (y # ys)"


text \<open>
  \<open>name = full.split(" ")\<close> followed by \<open>name += [""] * (3 - len(name))\<close>: a negative
  count adds nothing.
\<close>

definition name_tokens :: "string \<Rightarrow> string list" where
  "name_tokens full = (let name = split_on CHR '' '' full in name @ replicate (3 - length name) [])"


definition provider_name_split :: "string \<Rightarrow> string \<times> string" where
  "provider_name_split full =
     (let name = name_tokens full in (join_sp (take 2 name), join_sp (drop 2 name)))"

text \<open>\<open>v.split(" ")\<close> on a decoded value: only a string has the method.\<close>

fun py_split_name :: "'f json \<Rightarrow> py_exn + string" where
  "py_split_name (JStr s) = Inr s"
| "py_split_name _ = Inl AttributeError"

section \<open>Relation extraction (parser/doctor.py, parser/establishment.py)\<close>

text \<open>
  \<open>value.get("fees", [{}])[0].get(key, None)\<close>: the default covers a missing
  \<open>fees\<close> key only.
\<close>

definition fee_field :: "'f json \<Rightarrow> string \<Rightarrow> py_exn + 'f json" where
  "fee_field value k =
     exn_bind (py_get value ''fees'' (JList [JObj []])) (\<lambda>fees.
     exn_bind (py_index0 fees) (\<lambda>fee. py_get fee k JNull))"

definition fees_pair :: "'f json \<Rightarrow> py_exn + 'f json" where
  "fees_pair value =
     exn_bind (fee_field value ''amount'') (\<lambda>amount.
     exn_bind (fee_field value ''type'') (\<lambda>type. Inr (JList [amount, type])))"

definition str_of :: "'f interp \<Rightarrow> py_exn + 'f json \<Rightarrow> py_exn + 'f json" where
  "str_of py m = exn_bind m (\<lambda>v. Inr (JStr (py_str (repr py) v)))"

text \<open>
  The dict stored at \<open>data[index]\<close> for one timing of one relation of a doctor's
  profile. The dicts keep the order of their keys: the persister binds
  \<open>tuple(d.values())\<close> to the placeholders of its statements by position.
\<close>

definition doctor_edge :: "'f interp \<Rightarrow> 'f json \<Rightarrow> 'f json \<Rightarrow> 'f json \<Rightarrow> 'f json \<Rightarrow>
    py_exn + 'f json" where
  "doctor_edge py doctor_id value establishment timing = mk_dict [
     (''relation_info'', mk_dict [
        (''doctor_id'', str_of py (Inr doctor_id)),
        (''establishment_id'', str_of py (py_get establishment ''fabric_id'' (JStr []))),
        (''fees'', fees_pair value),
        (''begin_time'', py_get timing ''begin_time'' (JStr [])),
        (''end_time'', py_get timing ''end_time'' (JStr [])),
        (''available_days'', py_get timing ''available_days'' (JList []))]),
     (''establishment_info'', mk_dict [
        (''establishment_id'', str_of py (py_get establishment ''fabric_id'' (JStr []))),
        (''name'', py_get establishment ''name'' (JStr [])),
        (''slug'', py_get establishment ''slug'' (JStr [])),
        (''profile_url'', py_get establishment ''profile_url'' (JStr [])),
        (''city'', get_path establishment
            [(''address'', JObj []), (''city'', JObj []), (''city_name'', JStr [])]),
        (''state'', get_path establishment
            [(''address'', JObj []), (''city'', JObj []), (''state_name'', JStr [])]),
        (''locality'', get_path establishment
            [(''address'', JObj []), (''locality'', JObj []), (''name'', JStr [])]),
        (''latitude'', get_path establishment [(''address'', JObj []), (''latitude'', JNull)]),
        (''longitude'', get_path establishment [(''address'', JObj []), (''longitude'', JNull)]),
        (''address'', get_path establishment
            [(''address'', JObj []), (''address_line1'', JStr [])])])]"

text \<open>The inner loop: one relation of the list, every timing of it.\<close>

definition doctor_relation_edges :: "'f interp \<Rightarrow> 'f json \<Rightarrow> 'f json \<Rightarrow> py_exn + 'f json list" where
  "doctor_relation_edges py doctor_id value =
     exn_bind (py_get value ''timings'' (JList [])) (\<lambda>timings.
     exn_bind (py_get value ''establishment'' (JObj [])) (\<lambda>establishment.
     exn_bind (py_iter timings) (map_exn (doctor_edge py doctor_id value establishment))))"

text \<open>
  \<open>parse_doctor_establishment_relation\<close>. The dict \<open>data\<close> is keyed by the running
  index 0, 1, ...: it is the list of its values. The function does not read
  \<open>html_content\<close> and returns 0 for both the bed and the ambulance count.
\<close>

definition parse_doctor_establishment_relation :: "'f interp \<Rightarrow> 'f json \<Rightarrow> 'f json \<Rightarrow> 'h \<Rightarrow>
    py_exn + 'f json list \<times> 'f json \<times> 'f json \<times> 'f json" where
  "parse_doctor_establishment_relation py doctor_id response html_content =
     exn_bind (get_path response
        [(''data'', JObj []), (''providerRelations'', JObj []), (''relations'', JList [])])
       (\<lambda>relations.
     exn_bind (get_path response
        [(''data'', JObj []), (''providerRelations'', JObj []), (''establishment_count'', JNull)])
       (\<lambda>count.
     exn_bind (py_iter relations) (\<lambda>rels.
     exn_bind (map_exn (doctor_relation_edges py doctor_id) rels) (\<lambda>edges.
     Inr (concat edges, count, JInt 0, JInt 0)))))"

text \<open>The same for an establishment's profile: the counterpart is the provider.\<close>

definition provider_edge :: "'f interp \<Rightarrow> 'f json \<Rightarrow> 'f json \<Rightarrow> 'f json \<Rightarrow> string \<times> string \<Rightarrow>
    'f json \<Rightarrow> py_exn + 'f json" where
  "provider_edge py establishment_id value provider name timing = mk_dict [
     (''relation_info'', mk_dict [
        (''doctor_id'', str_of py (py_get provider ''fabric_id'' (JStr []))),
        (''establishment_id'', str_of py (Inr establishment_id)),
        (''fees'', fees_pair value),
        (''begin_time'', py_get timing ''begin_time'' (JStr [])),
        (''end_time'', py_get timing ''end_time'' (JStr [])),
        (''available_days'', py_get timing ''available_days'' (JList []))]),
     (''doctor_info'', mk_dict [
        (''doctor_id'', str_of py (py_get provider ''fabric_id'' (JStr []))),
        (''first_name'', Inr (JStr (fst name))),
        (''last_name'', Inr (JStr (snd name))),
        (''profile_photo'', py_get provider ''enhanced_image_url'' (JStr [])),
        (''profile_url'', py_get provider ''profile_url'' (JStr [])),
        (''slug'', py_get provider ''slug'' (JStr [])),
        (''experience_years'', py_get provider ''years_of_experience'' JNull)])]"

definition establishment_relation_edges :: "'f interp \<Rightarrow> 'f json \<Rightarrow> 'f json \<Rightarrow>
    py_exn + 'f json list" where
  "establishment_relation_edges py establishment_id relation =
     exn_bind (py_get relation ''relation'' (JObj [])) (\<lambda>value.
     exn_bind (py_get value ''timings'' (JList [])) (\<lambda>timings.
     exn_bind (py_get value ''provider'' (JObj [])) (\<lambda>provider.
     exn_bind (exn_bind (py_get provider ''full_name'' (JStr [])) py_split_name) (\<lambda>full.
     exn_bind (py_iter timings)
       (map_exn (provider_edge py establishment_id value provider (provider_name_split full)))))))"

text \<open>
  The bed and ambulance counts are read from the page: \<open>find_h3 html id\<close> is the
  stripped text of the first \<open>h3\<close> whose \<open>data-qa-id\<close> is \<open>id\<close>, if there is one, and
  the count is what follows its last hyphen.
\<close>

definition count_suffix :: "string option \<Rightarrow> 'f json" where
  "count_suffix tag = (case tag of None \<Rightarrow> JNull | Some text \<Rightarrow> JStr (last (split_on CHR ''-'' text)))"

definition parse_establishment_doctor_relation :: "'f interp \<Rightarrow> ('h \<Rightarrow> string \<Rightarrow> string option) \<Rightarrow>
    'f json \<Rightarrow> 'f json \<Rightarrow> 'h \<Rightarrow> py_exn + 'f json list \<times> 'f json \<times> 'f json \<times> 'f json" where
  "parse_establishment_doctor_relation py find_h3 establishment_id response html_content =
     exn_bind (get_path response
        [(''data'', JObj []), (''getEstablishmentRelations'', JObj []), (''total_results_count'', JNull)])
       (\<lambda>doctor_count.
     let bed_count = count_suffix (find_h3 html_content ''bed_count'');
         amb_count = count_suffix (find_h3 html_content ''ambulance_count'')
     in
     exn_bind (get_path response
        [(''data'', JObj []), (''getEstablishmentRelations'', JObj []), (''results'', JList [])])
       (\<lambda>relations.
     exn_bind (py_iter relations) (\<lambda>rels.
     exn_bind (map_exn (establishment_relation_edges py establishment_id) rels) (\<lambda>edges.
     Inr (concat edges, doctor_count, bed_count, amb_count)))))"

section \<open>The fetcher (utils/http.py)\<close>

text \<open>
  What one call of \<open>requests.request\<close> can give: an exception of the library, or a
  response with its status, its body decoded as JSON (\<open>Inl\<close> is the text of the
  decoding error) and its raw content.
\<close>

record 'b response =
  status_code :: int
  json_body :: "string + 'b"
  content :: string

datatype 'b net_result = ConnectionError | Timeout | OtherRequestException
  | Responded "'b response"

text \<open>\<open>RequestError(message, status_code, url, response)\<close>; an argument left out is \<open>None\<close>.\<close>

datatype 'b request_error =
  RequestError string "int option" "string option" "'b response option"

datatype 'b payload = Json 'b | Content string

datatype net_event = Attempt string | Backoff int

text \<open>
  The loop \<open>for attempt in range(max_retries)\<close>. The network is the parameter \<open>net\<close>:
  the outcome of the call made for a URL at a given attempt. The second component is
  what the function did: the requests sent and the sleeps between them.
\<close>

fun attempt_loop :: "(string \<Rightarrow> int \<Rightarrow> 'b net_result) \<Rightarrow> string \<Rightarrow> int \<Rightarrow> int \<Rightarrow> bool \<Rightarrow>
    int list \<Rightarrow> ('b request_error + 'b payload) \<times> net_event list" where
  "attempt_loop net url max_retries retry_delay return_json [] =
     (Inl (RequestError (''Request failed after '' @ str_int max_retries @ '' attempts'')
             None (Some url) None), [])"
| "attempt_loop net url max_retries retry_delay return_json (attempt # rest) =
     (let retry =
            (let (r, evs) = attempt_loop net url max_retries retry_delay return_json rest
             in (r, Attempt url
                    # (if attempt < max_retries - 1
                       then [Backoff (retry_delay * 2 ^ nat attempt)] else []) @ evs))
      in case net url attempt of
           ConnectionError \<Rightarrow> retry
         | Timeout \<Rightarrow> retry
         | OtherRequestException \<Rightarrow> retry
         | Responded resp \<Rightarrow>
             if 400 \<le> status_code resp \<and> status_code resp < 600 then
               (if status_code resp \<ge> 400 \<and> status_code resp < 500 \<and> status_code resp \<noteq> 429
                then (Inl (RequestError (''HTTP error: '' @ str_int (status_code resp))
                             (Some (status_code resp)) (Some url) (Some resp)), [Attempt url])
                else retry)
             else if return_json then
               (case json_body resp of
                  Inl msg \<Rightarrow>
                    if attempt = max_retries - 1
                    then (Inl (RequestError (''Invalid JSON response: '' @ msg)
                                 None (Some url) (Some resp)), [Attempt url])
                    else retry
                | Inr j \<Rightarrow> (Inr (Json j), [Attempt url]))
             else (Inr (Content (content resp)), [Attempt url]))"

definition make_request :: "(string \<Rightarrow> int \<Rightarrow> 'b net_result) \<Rightarrow> string \<Rightarrow> int \<Rightarrow> int \<Rightarrow> bool \<Rightarrow>
    ('b request_error + 'b payload) \<times> net_event list" where
  "make_request net url max_retries retry_delay return_json =
     attempt_loop net url max_retries retry_delay return_json [0..max_retries - 1]"

definition attempts :: "net_event list \<Rightarrow> nat" where
  "attempts evs = length (filter (\<lambda>e. case e of Attempt u \<Rightarrow> True | Backoff d \<Rightarrow> False) evs)"

section \<open>The statements of config.py\<close>




text \<open>
  A statement, by its kind: \<open>INSERT INTO t (cols) VALUES (...) ON CONFLICT (key) DO UPDATE
  SET assignments\<close>, the same with \<open>DO NOTHING\<close>, \<open>UPDATE t SET cols WHERE key = ...\<close>, the
  combined existence check, and the insertion of an edge.
\<close>

datatype query =
    InsertOnConflictUpdate string "string list" string "(string \<times> string) list"
  | InsertOnConflictNothing string "string list" string
  | UpdateWhere string "string list" string
  | CheckExistence
  | InsertRelation









section \<open>The persister (db/insert_db.py)\<close>

text \<open>
  The database is reached through psycopg2, which is not code of this repository: the
  connection is a parameter. \<open>connect\<close> is \<open>None\<close> when \<open>connect_db\<close> raises; \<open>execute\<close>
  and \<open>commit\<close> say whether the call returned (\<open>True\<close>) or raised, and give the
  connection's next state in both cases; \<open>fetchone\<close> reads the answer of the existence
  check.
\<close>

record ('c, 'v) driver =
  connect :: "'c option"
  execute :: "'c \<Rightarrow> query \<Rightarrow> 'v list \<Rightarrow> bool \<times> 'c"
  fetchone :: "'c \<Rightarrow> (bool \<times> bool) option"
  commit :: "'c \<Rightarrow> bool \<times> 'c"
  rollback :: "'c \<Rightarrow> 'c"
  close :: "'c \<Rightarrow> 'c"






text \<open>The keys named in the warnings of the log.\<close>

definition warnings :: "('k \<times> bool) list \<Rightarrow> 'k list" where
  "warnings outs = map fst (filter (\<lambda>out. \<not> snd out) outs)"














section \<open>The entity tables\<close>









section \<open>The orchestrator (main.py)\<close>

text \<open>
  What \<open>main\<close> does with one seed URL. \<open>make_request\<close> on the seed and Python's \<open>int\<close>
  are parameters. The body of the page loop runs inside a \<open>try\<close> that catches every
  \<open>Exception\<close>, so it can end an iteration but not the loop: it is the parameter \<open>body\<close>,
  a change of the run's state that sees the page number and the page's URL.
\<close>

datatype event = Sleep int | Page int string


definition page_url :: "string \<Rightarrow> int \<Rightarrow> string" where
  "page_url link page = str_replace ''page=1'' (''page='' @ str_int page) link"

definition page_events :: "string \<Rightarrow> int \<Rightarrow> event list" where
  "page_events link page =
     (if page > 1 \<and> page mod 5 = 0 then [Sleep 3] else []) @ [Page page (page_url link page)]"

fun page_loop :: "(int \<Rightarrow> string \<Rightarrow> 's \<Rightarrow> 's) \<Rightarrow> string \<Rightarrow> int list \<Rightarrow> 's \<Rightarrow>
    event list \<times> 's" where
  "page_loop body link [] st = ([], st)"
| "page_loop body link (page # pages) st =
     (let (evs, st') = page_loop body link pages (body page (page_url link page) st)
      in (page_events link page @ evs, st'))"




text \<open>The page numbers and the URLs the loop asked for, in order.\<close>

fun pages_of :: "event list \<Rightarrow> (int \<times> string) list" where
  "pages_of [] = []"
| "pages_of (Sleep d # evs) = pages_of evs"
| "pages_of (Page p u # evs) = (p, u) # pages_of evs"

section \<open>Shapes of a profile payload\<close>

text \<open>
  The vocabulary of the statements about the relation parsers: what \<open>d.get(k, dflt)\<close>
  gives when it does not raise, the relation list of a payload, the timing windows and
  the first fee entry of a relation, and the shape under which the parsers read a
  relation without raising.
\<close>

definition is_obj :: "'f json \<Rightarrow> bool" where
  "is_obj v = (case v of JObj kvs \<Rightarrow> True | _ \<Rightarrow> False)"

definition lookup :: "'f json \<Rightarrow> string \<Rightarrow> 'f json \<Rightarrow> 'f json" where
  "lookup d k dflt = (case py_get d k dflt of Inl e \<Rightarrow> dflt | Inr v \<Rightarrow> v)"

definition doctor_relations :: "'f json \<Rightarrow> py_exn + 'f json" where
  "doctor_relations response = get_path response
     [(''data'', JObj []), (''providerRelations'', JObj []), (''relations'', JList [])]"

definition establishment_relations :: "'f json \<Rightarrow> py_exn + 'f json" where
  "establishment_relations response = get_path response
     [(''data'', JObj []), (''getEstablishmentRelations'', JObj []), (''results'', JList [])]"

definition timings_of :: "'f json \<Rightarrow> 'f json list" where
  "timings_of value = (case lookup value ''timings'' (JList []) of JList ts \<Rightarrow> ts | _ \<Rightarrow> [])"

definition first_fee :: "'f json \<Rightarrow> 'f json" where
  "first_fee value =
     (case lookup value ''fees'' (JList [JObj []]) of JList (fee # fees) \<Rightarrow> fee | _ \<Rightarrow> JNull)"

text \<open>
  A relation the parsers read without raising: a dict whose timings are a list of
  dicts and whose fee list is absent or starts with a dict.
\<close>

definition wf_value :: "'f json \<Rightarrow> bool" where
  "wf_value value =
     (is_obj value
      \<and> (case lookup value ''timings'' (JList []) of JList ts \<Rightarrow> list_all is_obj ts | _ \<Rightarrow> False)
      \<and> is_obj (first_fee value))"

definition wf_establishment :: "'f json \<Rightarrow> bool" where
  "wf_establishment est =
     (is_obj est
      \<and> is_obj (lookup est ''address'' (JObj []))
      \<and> is_obj (lookup (lookup est ''address'' (JObj [])) ''city'' (JObj []))
      \<and> is_obj (lookup (lookup est ''address'' (JObj [])) ''locality'' (JObj [])))"

definition wf_doctor_relation :: "'f json \<Rightarrow> bool" where
  "wf_doctor_relation value =
     (wf_value value \<and> wf_establishment (lookup value ''establishment'' (JObj [])))"

definition wf_provider :: "'f json \<Rightarrow> bool" where
  "wf_provider provider =
     (is_obj provider
      \<and> (case lookup provider ''full_name'' (JStr []) of JStr s \<Rightarrow> True | _ \<Rightarrow> False))"

definition wf_establishment_relation :: "'f json \<Rightarrow> bool" where
  "wf_establishment_relation relation =
     (is_obj relation
      \<and> wf_value (lookup relation ''relation'' (JObj []))
      \<and> wf_provider (lookup (lookup relation ''relation'' (JObj [])) ''provider'' (JObj [])))"

text \<open>
  What an emitted edge holds under \<open>relation_info\<close>, and what it should hold for a
  timing of a relation: the amount and type of the first fee, and the timing's own
  begin time, end time and days.
\<close>

definition edge_field :: "'f json \<Rightarrow> string \<Rightarrow> string \<Rightarrow> 'f json" where
  "edge_field edge part k = lookup (lookup edge part JNull) k JNull"

definition relation_view :: "'f json \<Rightarrow> 'f json \<times> 'f json \<times> 'f json \<times> 'f json" where
  "relation_view edge =
     (edge_field edge ''relation_info'' ''fees'', edge_field edge ''relation_info'' ''begin_time'',
      edge_field edge ''relation_info'' ''end_time'',
      edge_field edge ''relation_info'' ''available_days'')"

definition timing_view :: "'f json \<Rightarrow> 'f json \<Rightarrow> 'f json \<times> 'f json \<times> 'f json \<times> 'f json" where
  "timing_view value timing =
     (JList [lookup (first_fee value) ''amount'' JNull, lookup (first_fee value) ''type'' JNull],
      lookup timing ''begin_time'' (JStr []), lookup timing ''end_time'' (JStr []),
      lookup timing ''available_days'' (JList []))"

text \<open>The identifier of the counterpart, as the parsers write it: \<open>str(x.get("fabric_id", ""))\<close>.\<close>

definition counterpart_id :: "'f interp \<Rightarrow> 'f json \<Rightarrow> 'f json" where
  "counterpart_id py counterpart = JStr (py_str (repr py) (lookup counterpart ''fabric_id'' (JStr [])))"


text \<open>Sample inputs for the statements below.\<close>

definition sample_interp :: "unit interp" where
  "sample_interp = \<lparr>float_of_str = (\<lambda>s. None), float_of_int = (\<lambda>i. None), max_str_digits = 0,
     repr = (\<lambda>v. [])\<rparr>"

definition sample_timings :: "unit json list" where
  "sample_timings =
     [JObj [(''begin_time'', JStr ''09:00''), (''end_time'', JStr ''12:00''),
            (''available_days'', JList [JStr ''MON''])],
      JObj [(''begin_time'', JStr ''14:00''), (''end_time'', JStr ''17:00''),
            (''available_days'', JList [JStr ''TUE''])],
      JObj [(''begin_time'', JStr ''18:00''), (''end_time'', JStr ''20:00''),
            (''available_days'', JList [JStr ''SAT'', JStr ''SUN''])]]"

definition sample_fee :: "unit json" where
  "sample_fee = JObj [(''amount'', JStr ''500''), (''type'', JStr ''consultation'')]"

text \<open>A relation of a doctor's profile whose establishment has a blank \<open>fabric_id\<close>.\<close>

definition sample_doctor_relation :: "unit json" where
  "sample_doctor_relation =
     JObj [(''fees'', JList [sample_fee]), (''timings'', JList sample_timings),
           (''establishment'', JObj [(''fabric_id'', JStr []), (''name'', JStr ''City Clinic'')])]"

definition sample_doctor_profile :: "unit json list \<Rightarrow> unit json" where
  "sample_doctor_profile relations =
     JObj [(''data'', JObj [(''providerRelations'',
        JObj [(''establishment_count'', JInt 1), (''relations'', JList relations)])])]"

text \<open>A relation of an establishment's profile whose provider has no \<open>fabric_id\<close>.\<close>

definition sample_establishment_relation :: "unit json" where
  "sample_establishment_relation =
     JObj [(''relation'',
        JObj [(''fees'', JList [sample_fee]), (''timings'', JList (take 2 sample_timings)),
              (''provider'', JObj [(''full_name'', JStr ''Anita Rao'')])])]"

definition sample_establishment_profile :: "unit json list \<Rightarrow> unit json" where
  "sample_establishment_profile results =
     JObj [(''data'', JObj [(''getEstablishmentRelations'',
        JObj [(''total_results_count'', JInt 1), (''results'', JList results)])])]"

text \<open>The same relations with a fee list that is present and empty.\<close>

definition no_fee_doctor_relation :: "unit json" where
  "no_fee_doctor_relation =
     JObj [(''fees'', JList []), (''timings'', JList sample_timings),
           (''establishment'', JObj [(''fabric_id'', JStr ''e1''), (''name'', JStr ''City Clinic'')])]"

definition no_fee_establishment_relation :: "unit json" where
  "no_fee_establishment_relation =
     JObj [(''relation'',
        JObj [(''fees'', JList []), (''timings'', JList (take 1 sample_timings)),
              (''provider'', JObj [(''full_name'', JStr ''Anita Rao'')])])]"

section \<open>Vocabulary of the statements about the persister\<close>














section \<open>Properties of the orchestrator\<close>

lemma pages_of_append: "pages_of (xs @ ys) = pages_of xs @ pages_of ys"
  by (induction xs rule: pages_of.induct) auto

lemma pages_of_page_events: "pages_of (page_events link p) = [(p, page_url link p)]"
  by (simp add: page_events_def)

lemma pages_of_page_loop:
  "pages_of (fst (page_loop body link ps st)) = map (\<lambda>p. (p, page_url link p)) ps"
  by (induction ps arbitrary: st)
     (simp_all add: case_prod_beta pages_of_append pages_of_page_events)



lemma prefix_Cons_append:
  "prefix (a # as) (xs @ ys) \<longleftrightarrow>
     (xs = [] \<and> prefix (a # as) ys) \<or> (\<exists>xs'. xs = a # xs' \<and> prefix as (xs' @ ys))"
  by (cases xs) auto

lemma no_straddle:
  "prefix ''page=1'' (xs @ ''page=1'' @ rest) \<Longrightarrow> xs \<noteq> [] \<Longrightarrow> prefix ''page=1'' xs"
  by (auto simp: prefix_Cons_append)

lemma replace_skip:
  "\<not> str_contains ''page=1'' pre \<Longrightarrow>
   replace_from CHR ''p'' ''age=1'' new (pre @ ''page=1'' @ rest) =
     pre @ new @ replace_from CHR ''p'' ''age=1'' new rest"
proof (induction pre)
  case Nil
  then show ?case by simp
next
  case (Cons c cs)
  then have np: "\<not> prefix ''page=1'' (c # cs)" and nc: "\<not> str_contains ''page=1'' cs"
    by auto
  have "\<not> prefix ''page=1'' ((c # cs) @ ''page=1'' @ rest)"
    using no_straddle [of "c # cs" rest] np by blast
  then have "\<not> prefix ''page=1'' (c # (cs @ ''page=1'' @ rest))"
    by simp
  then have "replace_from CHR ''p'' ''age=1'' new (c # (cs @ ''page=1'' @ rest)) =
      c # replace_from CHR ''p'' ''age=1'' new (cs @ ''page=1'' @ rest)"
    by (simp only: replace_from.simps if_False)
  then show ?case using Cons.IH [OF nc] by simp
qed

lemma replace_absent:
  "\<not> str_contains (o1 # os) s \<Longrightarrow> replace_from o1 os new s = s"
  by (induction s) auto

text \<open>
  C10. The page URL is the seed URL with the text \<open>page=1\<close> replaced by \<open>page=N\<close>. A
  seed URL without that text is asked for unchanged at every page of the loop. Where
  the text occurs, the first occurrence is rewritten and what follows it is rewritten
  in the same way, so every occurrence is, whether or not it is the page parameter.
\<close>

theorem page_rewrite_textual:
  "(\<not> str_contains ''page=1'' link \<longrightarrow>
       page_url link page = link
     \<and> pages_of (fst (page_loop body link pages st)) = map (\<lambda>p. (p, link)) pages)
   \<and> (\<not> str_contains ''page=1'' pre \<longrightarrow>
       page_url (pre @ ''page=1'' @ rest) page
         = pre @ ''page='' @ str_int page @ page_url rest page)"
proof -
  have a: "\<not> str_contains ''page=1'' link \<Longrightarrow> page_url link p = link" for p
    by (simp add: page_url_def replace_absent)
  have b: "\<not> str_contains ''page=1'' pre \<Longrightarrow>
       page_url (pre @ ''page=1'' @ rest) page
         = pre @ ''page='' @ str_int page @ page_url rest page"
    using replace_skip [of pre "''page='' @ str_int page" rest]
    by (simp add: page_url_def)
  show ?thesis using a b by (simp add: pages_of_page_loop)
qed

theorem page_rewrite_textual_witness:
  "\<not> str_contains ''page=1'' ''https://x/list?city=pune''
   \<and> page_url ''https://x/list?city=pune'' 7 = ''https://x/list?city=pune''
   \<and> pages_of (fst (page_loop (\<lambda>p u s. s) ''https://x/list?city=pune'' [1, 2, 3] ()))
       = [(1, ''https://x/list?city=pune''), (2, ''https://x/list?city=pune''),
          (3, ''https://x/list?city=pune'')]
   \<and> \<not> str_contains ''page=1'' ''https://x/list?sub''
   \<and> page_url (''https://x/list?sub'' @ ''page=1'' @ ''&page=10'') 7
       = ''https://x/list?sub'' @ ''page='' @ str_int 7 @ page_url ''&page=10'' 7
   \<and> page_url ''https://x/list?subpage=1&page=10'' 7 = ''https://x/list?subpage=7&page=70''"
proof -
  have h1: "\<not> str_contains ''page=1'' ''https://x/list?city=pune''" by simp
  have h2: "\<not> str_contains ''page=1'' ''https://x/list?sub''" by simp
  have e: "page_url ''https://x/list?subpage=1&page=10'' 7 = ''https://x/list?subpage=7&page=70''"
    by (simp add: page_url_def str_int_def digit_char_def)
  show ?thesis
    using page_rewrite_textual [of "''https://x/list?city=pune''" 7 "\<lambda>p u s. s" "[1, 2, 3]" "()"
        "''https://x/list?sub''" "''&page=10''"] h1 h2 e
    by simp
qed

section \<open>Properties of the fetcher\<close>

lemma upto_0_2: "[0..(2::int)] = [0, 1, 2]"
  by (simp add: upto.simps)

text \<open>
  C2, the claim as it stands, at a URL that answers 500 three times: the error raised
  after the third attempt has no status code, although the last response had one.
\<close>

theorem fetch_retry_status_counterexample:
  "fst (make_request (\<lambda>u a. Responded \<lparr>status_code = 500, json_body = Inl [], content = []\<rparr>)
          ''u'' 3 2 True :: (unit request_error + unit payload) \<times> net_event list)
     = Inl (RequestError ''Request failed after 3 attempts'' None (Some ''u'') None)"
  by (simp add: make_request_def upto_0_2 str_int_def digit_char_def)

text \<open>
  C2, amended. With \<open>max_retries = 3\<close>, a URL that answers 500 at each of the three
  attempts is asked three times, with the two backoff sleeps between, and the call
  raises \<open>RequestError\<close> with the URL and no status code. A URL whose first answer is a
  4xx other than 429 is asked once and the call raises at once, with the URL and that
  status code.
\<close>

theorem fetch_retry:
  "((\<forall>a \<in> {0, 1, 2}. \<exists>resp. net url a = Responded resp \<and> status_code resp = 500) \<longrightarrow>
       make_request net url 3 retry_delay return_json
         = (Inl (RequestError ''Request failed after 3 attempts'' None (Some url) None),
            [Attempt url, Backoff retry_delay, Attempt url, Backoff (retry_delay * 2), Attempt url])
     \<and> attempts (snd (make_request net url 3 retry_delay return_json)) = 3)
   \<and> (net url 0 = Responded resp \<and> 400 \<le> status_code resp \<and> status_code resp < 500
        \<and> status_code resp \<noteq> 429 \<longrightarrow>
       make_request net url 3 retry_delay return_json
         = (Inl (RequestError (''HTTP error: '' @ str_int (status_code resp))
                   (Some (status_code resp)) (Some url) (Some resp)), [Attempt url])
     \<and> attempts (snd (make_request net url 3 retry_delay return_json)) = 1)"
proof -
  have five: "(\<forall>a \<in> {0, 1, 2}. \<exists>resp. net url a = Responded resp \<and> status_code resp = 500) \<Longrightarrow>
       make_request net url 3 retry_delay return_json
         = (Inl (RequestError ''Request failed after 3 attempts'' None (Some url) None),
            [Attempt url, Backoff retry_delay, Attempt url, Backoff (retry_delay * 2), Attempt url])"
  proof -
    assume h: "\<forall>a \<in> {0, 1, 2}. \<exists>resp. net url a = Responded resp \<and> status_code resp = 500"
    from h obtain r0 where r0: "net url 0 = Responded r0" "status_code r0 = 500" by auto
    from h obtain r1 where r1: "net url 1 = Responded r1" "status_code r1 = 500" by auto
    from h obtain r2 where r2: "net url 2 = Responded r2" "status_code r2 = 500" by auto
    show ?thesis
      by (simp add: make_request_def upto_0_2 r0 r1 r2 str_int_def digit_char_def)
  qed
  have four: "net url 0 = Responded resp \<Longrightarrow> 400 \<le> status_code resp \<Longrightarrow> status_code resp < 500
        \<Longrightarrow> status_code resp \<noteq> 429 \<Longrightarrow>
       make_request net url 3 retry_delay return_json
         = (Inl (RequestError (''HTTP error: '' @ str_int (status_code resp))
                   (Some (status_code resp)) (Some url) (Some resp)), [Attempt url])"
    by (simp add: make_request_def upto_0_2)
  show ?thesis using five four by (auto simp: attempts_def)
qed

theorem fetch_retry_witness:
  "map ((\<lambda>u a. Responded \<lparr>status_code = (if u = ''gone'' then 404 else 500),
        json_body = Inl [], content = []\<rparr> :: unit net_result) ''down'') [0, 1, 2 :: int]
      = replicate 3 (Responded \<lparr>status_code = 500, json_body = Inl [], content = []\<rparr>)
   \<and> attempts (snd (make_request (\<lambda>u a. Responded \<lparr>status_code = (if u = ''gone'' then 404 else 500),
        json_body = Inl [], content = []\<rparr> :: unit net_result) ''down'' 3 2 True)) = 3
   \<and> make_request (\<lambda>u a. Responded \<lparr>status_code = (if u = ''gone'' then 404 else 500),
        json_body = Inl [], content = []\<rparr> :: unit net_result) ''gone'' 3 2 True
      = (Inl (RequestError ''HTTP error: 404'' (Some 404) (Some ''gone'')
           (Some \<lparr>status_code = 404, json_body = Inl [], content = []\<rparr>)), [Attempt ''gone''])"
proof -
  let ?net = "\<lambda>u (a::int). Responded \<lparr>status_code = (if u = ''gone'' then 404 else 500),
        json_body = Inl [], content = []\<rparr> :: unit net_result"
  have h: "\<forall>a \<in> {0, 1, 2}. \<exists>resp. ?net ''down'' a = Responded resp \<and> status_code resp = 500"
    by simp
  have s: "str_int 404 = ''404''"
    by (simp add: str_int_def digit_char_def)
  have d: "attempts (snd (make_request ?net ''down'' 3 2 True)) = 3"
    using fetch_retry [of ?net "''down''" 2 True] h by blast
  have g: "make_request ?net ''gone'' 3 2 True
      = (Inl (RequestError ''HTTP error: 404'' (Some 404) (Some ''gone'')
           (Some \<lparr>status_code = 404, json_body = Inl [], content = []\<rparr>)), [Attempt ''gone''])"
    using fetch_retry [of ?net "''gone''" 2 True
        "\<lparr>status_code = 404, json_body = Inl [], content = []\<rparr>"] s
    by simp
  have n: "map (?net ''down'') [0, 1, 2]
      = replicate 3 (Responded \<lparr>status_code = 500, json_body = Inl [], content = []\<rparr>)"
    by (simp add: numeral_3_eq_3)
  show ?thesis using n d g by blast
qed

section \<open>Properties of the numeric coercion\<close>






section \<open>Properties of the name split\<close>

lemma split_on_not_Nil: "split_on sep s \<noteq> []"
  by (induction s) (auto simp: Let_def)
















section \<open>Properties of the relation parsers\<close>

lemma is_objE: "is_obj v \<Longrightarrow> (\<And>kvs. v = JObj kvs \<Longrightarrow> P) \<Longrightarrow> P"
  by (cases v) (auto simp: is_obj_def)

lemma py_get_obj: "is_obj d \<Longrightarrow> py_get d k dflt = Inr (lookup d k dflt)"
  by (erule is_objE) (simp add: lookup_def)

lemma lookup_JObj: "lookup (JObj kvs) k dflt = (case map_of kvs k of Some v \<Rightarrow> v | None \<Rightarrow> dflt)"
  by (simp add: lookup_def)

lemma map_exn_all:
  "\<forall>x \<in> set xs. \<exists>y. f x = Inr y \<and> P x y \<Longrightarrow> \<exists>ys. map_exn f xs = Inr ys \<and> list_all2 P xs ys"
  by (induction xs) auto

lemma map_exn_raises:
  "\<forall>x \<in> set pre. \<exists>y. f x = Inr y \<Longrightarrow> f x = Inl e \<Longrightarrow> map_exn f (pre @ x # post) = Inl e"
  by (induction pre) auto




lemma fees_pair_wf:
  "is_obj value \<Longrightarrow> is_obj (first_fee value) \<Longrightarrow>
     fees_pair value = Inr (JList [lookup (first_fee value) ''amount'' JNull,
                                   lookup (first_fee value) ''type'' JNull])"
  apply (erule is_objE)
  apply (auto simp: fees_pair_def fee_field_def exn_bind_def first_fee_def lookup_def is_obj_def
      split: option.splits json.splits list.splits)
  done

lemma fees_pair_empty:
  "map_of v ''fees'' = Some (JList []) \<Longrightarrow> fees_pair (JObj v) = Inl IndexError"
  by (simp add: fees_pair_def fee_field_def exn_bind_def)

lemma fees_pair_absent:
  "map_of v ''fees'' = None \<Longrightarrow> fees_pair (JObj v) = Inr (JList [JNull, JNull])"
  by (simp add: fees_pair_def fee_field_def exn_bind_def)


lemma doctor_edge_wf:
  assumes v: "is_obj value" and f: "is_obj (first_fee value)"
    and e: "wf_establishment est" and t: "is_obj timing"
  shows "\<exists>edge. doctor_edge py did value est timing = Inr edge
      \<and> relation_view edge = timing_view value timing
      \<and> edge_field edge ''relation_info'' ''establishment_id'' = counterpart_id py est
      \<and> edge_field edge ''establishment_info'' ''establishment_id'' = counterpart_id py est
      \<and> edge_field edge ''relation_info'' ''doctor_id'' = JStr (py_str (repr py) did)"
proof -
  from e have e1: "is_obj est" and e2: "is_obj (lookup est ''address'' (JObj []))"
    and e3: "is_obj (lookup (lookup est ''address'' (JObj [])) ''city'' (JObj []))"
    and e4: "is_obj (lookup (lookup est ''address'' (JObj [])) ''locality'' (JObj []))"
    by (simp_all add: wf_establishment_def)
  show ?thesis
    by (simp add: doctor_edge_def mk_dict_def str_of_def exn_bind_def fees_pair_wf [OF v f]
        py_get_obj [OF e1] py_get_obj [OF e2] py_get_obj [OF e3] py_get_obj [OF e4]
        py_get_obj [OF t] relation_view_def timing_view_def edge_field_def counterpart_id_def
        lookup_JObj)
qed

lemma provider_edge_wf:
  assumes v: "is_obj value" and f: "is_obj (first_fee value)"
    and p: "is_obj provider" and t: "is_obj timing"
  shows "\<exists>edge. provider_edge py eid value provider name timing = Inr edge
      \<and> relation_view edge = timing_view value timing
      \<and> edge_field edge ''relation_info'' ''doctor_id'' = counterpart_id py provider
      \<and> edge_field edge ''doctor_info'' ''doctor_id'' = counterpart_id py provider
      \<and> edge_field edge ''relation_info'' ''establishment_id'' = JStr (py_str (repr py) eid)"
  by (simp add: provider_edge_def mk_dict_def str_of_def exn_bind_def fees_pair_wf [OF v f]
      py_get_obj [OF p] py_get_obj [OF t] relation_view_def timing_view_def edge_field_def
      counterpart_id_def lookup_JObj)


lemma py_get_ok_any: "py_get d k a = Inr v \<Longrightarrow> \<exists>w. py_get d k' b = Inr w"
  by (cases d) auto

lemma get_path3_ok_any:
  assumes "get_path d [(k1, d1), (k2, d2), (k, a)] = Inr v"
  shows "\<exists>w. get_path d [(k1, d1), (k2, d2), (k', b)] = Inr w"
proof -
  from assms obtain x1 where x1: "py_get d k1 d1 = Inr x1" by (auto split: sum.splits)
  from assms x1 obtain x2 where x2: "py_get x1 k2 d2 = Inr x2" by (auto split: sum.splits)
  from assms x1 x2 have "py_get x2 k a = Inr v" by (auto split: sum.splits)
  from py_get_ok_any [OF this] obtain w where "py_get x2 k' b = Inr w" by blast
  then show ?thesis using x1 x2 by simp
qed

lemma doctor_relation_edges_wf:
  assumes "wf_doctor_relation value"
  shows "\<exists>edges. doctor_relation_edges py did value = Inr edges
      \<and> list_all2 (\<lambda>t e. relation_view e = timing_view value t
           \<and> edge_field e ''relation_info'' ''establishment_id''
               = counterpart_id py (lookup value ''establishment'' (JObj []))
           \<and> edge_field e ''establishment_info'' ''establishment_id''
               = counterpart_id py (lookup value ''establishment'' (JObj [])))
          (timings_of value) edges"
proof -
  from assms have v: "is_obj value" and f: "is_obj (first_fee value)"
    and e: "wf_establishment (lookup value ''establishment'' (JObj []))"
    by (simp_all add: wf_doctor_relation_def wf_value_def)
  from assms obtain ts where ts: "lookup value ''timings'' (JList []) = JList ts"
    and tobj: "list_all is_obj ts"
    by (auto simp: wf_doctor_relation_def wf_value_def split: json.splits)
  have tof: "timings_of value = ts" by (simp add: timings_of_def ts)
  have "\<forall>t \<in> set ts. \<exists>edge. doctor_edge py did value (lookup value ''establishment'' (JObj [])) t = Inr edge
      \<and> (relation_view edge = timing_view value t
           \<and> edge_field edge ''relation_info'' ''establishment_id''
               = counterpart_id py (lookup value ''establishment'' (JObj []))
           \<and> edge_field edge ''establishment_info'' ''establishment_id''
               = counterpart_id py (lookup value ''establishment'' (JObj [])))"
  proof
    fix t assume "t \<in> set ts"
    then have "is_obj t" using tobj by (simp add: list_all_iff)
    from doctor_edge_wf [OF v f e this, of py did]
    show "\<exists>edge. doctor_edge py did value (lookup value ''establishment'' (JObj [])) t = Inr edge
      \<and> (relation_view edge = timing_view value t
           \<and> edge_field edge ''relation_info'' ''establishment_id''
               = counterpart_id py (lookup value ''establishment'' (JObj []))
           \<and> edge_field edge ''establishment_info'' ''establishment_id''
               = counterpart_id py (lookup value ''establishment'' (JObj [])))"
      by blast
  qed
  from map_exn_all [OF this] show ?thesis
    by (simp add: doctor_relation_edges_def exn_bind_def py_get_obj [OF v] ts tof)
qed

lemma establishment_relation_edges_wf:
  assumes "wf_establishment_relation relation"
  shows "\<exists>edges. establishment_relation_edges py eid relation = Inr edges
      \<and> list_all2 (\<lambda>t e. relation_view e = timing_view (lookup relation ''relation'' (JObj [])) t
           \<and> edge_field e ''relation_info'' ''doctor_id''
               = counterpart_id py (lookup (lookup relation ''relation'' (JObj [])) ''provider'' (JObj []))
           \<and> edge_field e ''doctor_info'' ''doctor_id''
               = counterpart_id py (lookup (lookup relation ''relation'' (JObj [])) ''provider'' (JObj [])))
          (timings_of (lookup relation ''relation'' (JObj []))) edges"
proof -
  let ?inner = "lookup relation ''relation'' (JObj [])"
  let ?provider = "lookup ?inner ''provider'' (JObj [])"
  from assms have r: "is_obj relation" and v: "is_obj ?inner" and f: "is_obj (first_fee ?inner)"
    and p: "is_obj ?provider"
    by (simp_all add: wf_establishment_relation_def wf_value_def wf_provider_def)
  from assms obtain ts where ts: "lookup ?inner ''timings'' (JList []) = JList ts"
    and tobj: "list_all is_obj ts"
    by (auto simp: wf_establishment_relation_def wf_value_def split: json.splits)
  from assms obtain full where full: "lookup ?provider ''full_name'' (JStr []) = JStr full"
    by (auto simp: wf_establishment_relation_def wf_provider_def split: json.splits)
  have tof: "timings_of ?inner = ts" by (simp add: timings_of_def ts)
  have "\<forall>t \<in> set ts. \<exists>edge. provider_edge py eid ?inner ?provider (provider_name_split full) t = Inr edge
      \<and> (relation_view edge = timing_view ?inner t
           \<and> edge_field edge ''relation_info'' ''doctor_id'' = counterpart_id py ?provider
           \<and> edge_field edge ''doctor_info'' ''doctor_id'' = counterpart_id py ?provider)"
  proof
    fix t assume "t \<in> set ts"
    then have "is_obj t" using tobj by (simp add: list_all_iff)
    from provider_edge_wf [OF v f p this, of py eid "provider_name_split full"]
    show "\<exists>edge. provider_edge py eid ?inner ?provider (provider_name_split full) t = Inr edge
      \<and> (relation_view edge = timing_view ?inner t
           \<and> edge_field edge ''relation_info'' ''doctor_id'' = counterpart_id py ?provider
           \<and> edge_field edge ''doctor_info'' ''doctor_id'' = counterpart_id py ?provider)"
      by blast
  qed
  from map_exn_all [OF this] show ?thesis
    by (simp add: establishment_relation_edges_def exn_bind_def py_get_obj [OF r]
        py_get_obj [OF v] py_get_obj [OF p] ts tof full)
qed




lemma doctor_relation_edges_empty_fees:
  assumes fees: "map_of v ''fees'' = Some (JList [])"
    and tim: "map_of v ''timings'' = Some (JList (t # ts))"
    and est: "is_obj (lookup (JObj v) ''establishment'' (JObj []))"
  shows "doctor_relation_edges py did (JObj v) = Inl IndexError"
proof -
  have edge: "doctor_edge py did (JObj v) (lookup (JObj v) ''establishment'' (JObj [])) t
      = Inl IndexError"
    by (simp add: doctor_edge_def mk_dict_def str_of_def exn_bind_def py_get_obj [OF est]
        fees_pair_empty [OF fees])
  have v: "is_obj (JObj v)" by (simp add: is_obj_def)
  have tl: "lookup (JObj v) ''timings'' (JList []) = JList (t # ts)"
    by (simp add: lookup_JObj tim)
  show ?thesis
    by (simp add: doctor_relation_edges_def exn_bind_def py_get_obj [OF v] tl edge
        del: py_get.simps)
qed

lemma establishment_relation_edges_empty_fees:
  assumes rel: "is_obj relation" and val: "lookup relation ''relation'' (JObj []) = JObj v"
    and fees: "map_of v ''fees'' = Some (JList [])"
    and tim: "map_of v ''timings'' = Some (JList (t # ts))"
    and prov: "wf_provider (lookup (JObj v) ''provider'' (JObj []))"
  shows "establishment_relation_edges py eid relation = Inl IndexError"
proof -
  let ?provider = "lookup (JObj v) ''provider'' (JObj [])"
  from prov have p: "is_obj ?provider" by (simp add: wf_provider_def)
  from prov obtain full where full: "lookup ?provider ''full_name'' (JStr []) = JStr full"
    by (auto simp: wf_provider_def split: json.splits)
  have edge: "provider_edge py eid (JObj v) ?provider name t = Inl IndexError" for name
    by (simp add: provider_edge_def mk_dict_def str_of_def exn_bind_def py_get_obj [OF p]
        fees_pair_empty [OF fees])
  have v: "is_obj (JObj v)" by (simp add: is_obj_def)
  have tl: "lookup (JObj v) ''timings'' (JList []) = JList (t # ts)"
    by (simp add: lookup_JObj tim)
  show ?thesis
    by (simp add: establishment_relation_edges_def exn_bind_def py_get_obj [OF rel] val
        py_get_obj [OF v] py_get_obj [OF p] tl full edge del: py_get.simps)
qed

text \<open>
  C9. A relation whose fee list is present and empty, with at least one timing
  window, makes both relation parsers raise \<open>IndexError\<close> for the whole profile,
  whatever well-shaped relations come before it and whatever comes after. The default
  \<open>[{}]\<close> serves a missing \<open>fees\<close> key only: then both fee fields are \<open>None\<close>.
\<close>

theorem empty_fee_list_raises:
  "(doctor_relations response = Inr (JList (pre @ JObj v # post))
      \<and> list_all wf_doctor_relation pre
      \<and> map_of v ''fees'' = Some (JList []) \<and> map_of v ''timings'' = Some (JList (t # ts))
      \<and> is_obj (lookup (JObj v) ''establishment'' (JObj [])) \<longrightarrow>
    parse_doctor_establishment_relation py did response html = Inl IndexError)
   \<and> (establishment_relations response' = Inr (JList (pre' @ relation # post'))
      \<and> list_all wf_establishment_relation pre'
      \<and> is_obj relation \<and> lookup relation ''relation'' (JObj []) = JObj v'
      \<and> map_of v' ''fees'' = Some (JList []) \<and> map_of v' ''timings'' = Some (JList (t' # ts'))
      \<and> wf_provider (lookup (JObj v') ''provider'' (JObj [])) \<longrightarrow>
    parse_establishment_doctor_relation py find_tag eid response' html' = Inl IndexError)
   \<and> (map_of w ''fees'' = None \<longrightarrow> fees_pair (JObj w) = Inr (JList [JNull, JNull]))
   \<and> (map_of w ''fees'' = Some (JList []) \<longrightarrow> fees_pair (JObj w) = Inl IndexError)"
proof -
  have doc: "parse_doctor_establishment_relation py did response html = Inl IndexError"
    if rels: "doctor_relations response = Inr (JList (pre @ JObj v # post))"
      and wf: "list_all wf_doctor_relation pre"
      and fees: "map_of v ''fees'' = Some (JList [])"
      and tim: "map_of v ''timings'' = Some (JList (t # ts))"
      and est: "is_obj (lookup (JObj v) ''establishment'' (JObj []))"
  proof -
    from rels obtain count where count: "get_path response
        [(''data'', JObj []), (''providerRelations'', JObj []), (''establishment_count'', JNull)]
        = Inr count"
      unfolding doctor_relations_def using get_path3_ok_any by blast
    have ok: "\<forall>r \<in> set pre. \<exists>es. doctor_relation_edges py did r = Inr es"
    proof
      fix r assume "r \<in> set pre"
      then have "wf_doctor_relation r" using wf by (simp add: list_all_iff)
      from doctor_relation_edges_wf [OF this, of py did]
      show "\<exists>es. doctor_relation_edges py did r = Inr es" by blast
    qed
    have "map_exn (doctor_relation_edges py did) (pre @ JObj v # post) = Inl IndexError"
      using map_exn_raises [OF ok doctor_relation_edges_empty_fees [OF fees tim est]] .
    then show ?thesis
      using rels count
      by (simp add: parse_doctor_establishment_relation_def doctor_relations_def exn_bind_def)
  qed
  have est: "parse_establishment_doctor_relation py find_tag eid response' html' = Inl IndexError"
    if rels: "establishment_relations response' = Inr (JList (pre' @ relation # post'))"
      and wf: "list_all wf_establishment_relation pre'"
      and rel: "is_obj relation" and val: "lookup relation ''relation'' (JObj []) = JObj v'"
      and fees: "map_of v' ''fees'' = Some (JList [])"
      and tim: "map_of v' ''timings'' = Some (JList (t' # ts'))"
      and prov: "wf_provider (lookup (JObj v') ''provider'' (JObj []))"
  proof -
    from rels obtain count where count: "get_path response'
        [(''data'', JObj []), (''getEstablishmentRelations'', JObj []), (''total_results_count'', JNull)]
        = Inr count"
      unfolding establishment_relations_def using get_path3_ok_any by blast
    have ok: "\<forall>r \<in> set pre'. \<exists>es. establishment_relation_edges py eid r = Inr es"
    proof
      fix r assume "r \<in> set pre'"
      then have "wf_establishment_relation r" using wf by (simp add: list_all_iff)
      from establishment_relation_edges_wf [OF this, of py eid]
      show "\<exists>es. establishment_relation_edges py eid r = Inr es" by blast
    qed
    have "map_exn (establishment_relation_edges py eid) (pre' @ relation # post') = Inl IndexError"
      using map_exn_raises [OF ok
          establishment_relation_edges_empty_fees [OF rel val fees tim prov]] .
    then show ?thesis
      using rels count
      by (simp add: parse_establishment_doctor_relation_def establishment_relations_def
          exn_bind_def Let_def)
  qed
  show ?thesis using doc est fees_pair_absent fees_pair_empty by blast
qed


lemmas sample_defs = sample_interp_def sample_timings_def sample_fee_def
  sample_doctor_relation_def sample_doctor_profile_def sample_establishment_relation_def
  sample_establishment_profile_def no_fee_doctor_relation_def no_fee_establishment_relation_def

lemmas shape_defs = doctor_relations_def establishment_relations_def wf_doctor_relation_def
  wf_establishment_relation_def wf_value_def wf_establishment_def wf_provider_def first_fee_def
  timings_of_def is_obj_def lookup_JObj

theorem empty_fee_list_raises_witness:
  "doctor_relations (sample_doctor_profile [sample_doctor_relation, no_fee_doctor_relation])
     = Inr (JList ([sample_doctor_relation] @ no_fee_doctor_relation # []))
   \<and> list_all wf_doctor_relation [sample_doctor_relation]
   \<and> parse_doctor_establishment_relation sample_interp (JStr ''d1'')
        (sample_doctor_profile [sample_doctor_relation, no_fee_doctor_relation]) ()
       = Inl IndexError
   \<and> establishment_relations (sample_establishment_profile [no_fee_establishment_relation])
     = Inr (JList ([] @ no_fee_establishment_relation # []))
   \<and> parse_establishment_doctor_relation sample_interp (\<lambda>h k. None) (JStr ''e1'')
        (sample_establishment_profile [no_fee_establishment_relation]) ()
       = Inl IndexError
   \<and> fees_pair (JObj [(''timings'', JList sample_timings)]) = Inr (JList [JNull, JNull])
   \<and> fees_pair (JObj [(''fees'', JList [] :: unit json)]) = Inl IndexError"
proof -
  let ?v = "[(''fees'', JList []), (''timings'', JList sample_timings),
           (''establishment'', JObj [(''fabric_id'', JStr ''e1''), (''name'', JStr ''City Clinic'')])]"
  let ?v' = "[(''fees'', JList []), (''timings'', JList (take 1 sample_timings)),
              (''provider'', JObj [(''full_name'', JStr ''Anita Rao'')])]"
  have d1: "doctor_relations (sample_doctor_profile [sample_doctor_relation, no_fee_doctor_relation])
     = Inr (JList ([sample_doctor_relation] @ JObj ?v # []))"
    by (simp add: doctor_relations_def sample_doctor_profile_def no_fee_doctor_relation_def)
  have d2: "list_all wf_doctor_relation [sample_doctor_relation]"
    by (simp add: sample_defs shape_defs)
  have d3: "map_of ?v ''fees'' = Some (JList [])" by simp
  have d4: "map_of ?v ''timings'' = Some (JList (hd sample_timings # tl sample_timings))"
    by (simp add: sample_timings_def)
  have d5: "is_obj (lookup (JObj ?v) ''establishment'' (JObj []))"
    by (simp add: shape_defs)
  have e1: "establishment_relations (sample_establishment_profile [no_fee_establishment_relation])
     = Inr (JList ([] @ no_fee_establishment_relation # []))"
    by (simp add: establishment_relations_def sample_establishment_profile_def)
  have e2: "list_all wf_establishment_relation []" by simp
  have e3: "is_obj no_fee_establishment_relation"
    by (simp add: no_fee_establishment_relation_def is_obj_def)
  have e4: "lookup no_fee_establishment_relation ''relation'' (JObj []) = JObj ?v'"
    by (simp add: no_fee_establishment_relation_def lookup_JObj)
  have e5: "map_of ?v' ''fees'' = Some (JList [])" by simp
  have e6: "map_of ?v' ''timings'' = Some (JList (hd sample_timings # []))"
    by (simp add: sample_timings_def)
  have e7: "wf_provider (lookup (JObj ?v') ''provider'' (JObj []))"
    by (simp add: shape_defs)
  have w1: "map_of [(''timings'', JList sample_timings)] ''fees'' = None" by simp
  have w2: "map_of [(''fees'', JList [] :: unit json)] ''fees'' = Some (JList [])" by simp
  note inst1 = empty_fee_list_raises [where
      response = "sample_doctor_profile [sample_doctor_relation, no_fee_doctor_relation]"
      and pre = "[sample_doctor_relation]" and v = ?v and post = "[]"
      and t = "hd sample_timings" and ts = "tl sample_timings"
      and response' = "sample_establishment_profile [no_fee_establishment_relation]"
      and pre' = "[]" and relation = no_fee_establishment_relation and post' = "[]"
      and v' = ?v' and t' = "hd sample_timings" and ts' = "[]"
      and py = sample_interp and did = "JStr ''d1''" and html = "()"
      and find_tag = "\<lambda>h k. None" and eid = "JStr ''e1''" and html' = "()"
      and w = "[(''timings'', JList sample_timings)]"]
  note inst2 = empty_fee_list_raises [where w = "[(''fees'', JList [] :: unit json)]"]
  have a: "parse_doctor_establishment_relation sample_interp (JStr ''d1'')
        (sample_doctor_profile [sample_doctor_relation, no_fee_doctor_relation]) ()
       = Inl IndexError"
    using inst1 [THEN conjunct1] d1 d2 d3 d4 d5 by blast
  have b: "parse_establishment_doctor_relation sample_interp (\<lambda>h k. None) (JStr ''e1'')
        (sample_establishment_profile [no_fee_establishment_relation]) ()
       = Inl IndexError"
    using inst1 [THEN conjunct2, THEN conjunct1] e1 e2 e3 e4 e5 e6 e7 by blast
  have c: "fees_pair (JObj [(''timings'', JList sample_timings)]) = Inr (JList [JNull, JNull])"
    using inst1 [THEN conjunct2, THEN conjunct2, THEN conjunct1] w1 by blast
  have d: "fees_pair (JObj [(''fees'', JList [] :: unit json)]) = Inl IndexError"
    using inst2 [THEN conjunct2, THEN conjunct2, THEN conjunct2] w2 by blast
  have d1': "doctor_relations (sample_doctor_profile [sample_doctor_relation, no_fee_doctor_relation])
     = Inr (JList ([sample_doctor_relation] @ no_fee_doctor_relation # []))"
    using d1 by (simp add: no_fee_doctor_relation_def)
  show ?thesis using d1' d2 a e1 b c d by blast
qed







section \<open>Properties of the entity upsert\<close>












section \<open>Properties of a batch\<close>




lemma foldl_exec_append:
  "foldl (\<lambda>c (q, p, ok). snd (execute db c q p)) c (xs @ ys)
     = foldl (\<lambda>c (q, p, ok). snd (execute db c q p)) (foldl (\<lambda>c (q, p, ok). snd (execute db c q p)) c xs) ys"
  by simp























end
